theory Spec2Isabelle
  imports Complex_Main
begin

section \<open>Numbers and the host's numeric primitives\<close>

text \<open>
  The library computes on JavaScript numbers. Two models of them are used. The first, in
  this and the next sections, is \<^typ>\<open>real\<close>: exact arithmetic on finite values, with no
  rounding error, no overflow, no signed zero and no \<^verbatim>\<open>NaN\<close> or \<^verbatim>\<open>Infinity\<close>. Where
  the source would divide by zero or take the logarithm of a value that is not positive,
  this model returns some real number instead of \<^verbatim>\<open>NaN\<close> or an infinity, so the theorems
  on it that depend on such a value carry the hypothesis that excludes it. The second model,
  binary64 with its special values, comes after the constructors; the statements about
  rounding and about \<^verbatim>\<open>NaN\<close> are made on it.

  The functions of the host's \<^verbatim>\<open>Math\<close> object follow the ECMAScript definition:
  \<^verbatim>\<open>Math.round\<close> returns the closest integer and, when two integers are equally close,
  the one closer to plus infinity, which is \<open>\<lfloor>x + 1/2\<rfloor>\<close>. On reals, where no argument is
  \<^verbatim>\<open>NaN\<close>, \<^verbatim>\<open>Math.max\<close> and \<^verbatim>\<open>Math.min\<close> are \<open>max\<close> and \<open>min\<close>.
\<close>

definition Math_round :: "real \<Rightarrow> real" where
  "Math_round x = of_int \<lfloor>x + 1 / 2\<rfloor>"

definition Math_sign :: "real \<Rightarrow> real" where
  "Math_sign x = sgn x"

definition Math_log10 :: "real \<Rightarrow> real" where
  "Math_log10 x = log 10 x"

definition Math_pow :: "real \<Rightarrow> real \<Rightarrow> real" where
  "Math_pow b e = b powr e"

definition Math_max :: "real \<Rightarrow> real \<Rightarrow> real" where
  "Math_max a b = max a b"

definition Math_min :: "real \<Rightarrow> real \<Rightarrow> real" where
  "Math_min a b = min a b"

text \<open>
  An optional boolean parameter (\<^verbatim>\<open>inverted?: boolean\<close>) is \<open>None\<close> when the caller
  leaves it out; \<^verbatim>\<open>if (inverted)\<close> then takes the else branch.
\<close>

definition truthy :: "bool option \<Rightarrow> bool" where
  "truthy b = (b = Some True)"

section \<open>The Scale type\<close>

text \<open>
  \<^verbatim>\<open>Scale\<close> has the fields \<^verbatim>\<open>min\<close>, \<^verbatim>\<open>max\<close>, \<^verbatim>\<open>toRatio\<close>, \<^verbatim>\<open>toAbsolute\<close>,
  \<^verbatim>\<open>applyDeltaTo\<close> and \<^verbatim>\<open>convertTo\<close>. The last two take another \<^verbatim>\<open>Scale\<close>; the
  record is therefore parametrised by the type \<open>'o\<close> of that other scale. The object that
  \<^verbatim>\<open>noopScale\<close> returns has the four function fields only, so these form the parent
  record and \<^verbatim>\<open>min\<close> and \<^verbatim>\<open>max\<close> (here \<open>min_s\<close> and \<open>max_s\<close>) extend it.
\<close>

type_synonym ToRatio = "real \<Rightarrow> real"
type_synonym ToAbsolute = "real \<Rightarrow> real"

record 'o ScaleOps =
  toRatio :: ToRatio
  toAbsolute :: ToAbsolute
  applyDeltaTo :: "'o \<Rightarrow> real \<Rightarrow> real \<Rightarrow> real"
  convertTo :: "'o \<Rightarrow> real \<Rightarrow> real"

record 'o Scale = "'o ScaleOps" +
  min_s :: real
  max_s :: real

section \<open>Clamping\<close>

definition clampedToRatio :: "real \<Rightarrow> ToRatio \<Rightarrow> real" where
  "clampedToRatio v toRatio' = Math_max 0 (Math_min (toRatio' v) 1)"

definition clampedToAbsolute :: "real \<Rightarrow> real \<Rightarrow> real \<Rightarrow> ToAbsolute \<Rightarrow> real" where
  "clampedToAbsolute ratio mn mx toAbsolute' = Math_max mn (Math_min (toAbsolute' ratio) mx)"

definition clamped :: "'o Scale \<Rightarrow> 'o Scale" where
  "clamped scale =
     scale\<lparr>toRatio := (\<lambda>v. clampedToRatio v (toRatio scale)),
           toAbsolute := (\<lambda>r. clampedToAbsolute r (min_s scale) (max_s scale) (toAbsolute scale))\<rparr>"

section \<open>Cross-scale operations\<close>

definition convertScaleTo :: "'o Scale \<Rightarrow> real \<Rightarrow> ToRatio \<Rightarrow> real" where
  "convertScaleTo otherScale a toRatio' =
     (let ratio = toRatio' a in toAbsolute otherScale ratio)"

definition applyDeltaToScale ::
  "'o Scale \<Rightarrow> real \<Rightarrow> real \<Rightarrow> ToAbsolute \<Rightarrow> ToRatio \<Rightarrow> real" where
  "applyDeltaToScale otherScale delta otherCurrent toAbsolute' toRatio' =
     (let currentRatio = toRatio otherScale otherCurrent;
          currentAbs = toAbsolute' currentRatio;
          newAbs = currentAbs + delta;
          newRatio = toRatio' newAbs
      in toAbsolute otherScale newRatio)"

section \<open>The constructors\<close>

definition linearScale :: "real \<Rightarrow> real \<Rightarrow> bool option \<Rightarrow> ('o Scale) Scale" where
  "linearScale mn mx inverted =
     (let rng = mx - mn;
          toRatio' = (\<lambda>a. let r = (a - mn) / rng in
                           if truthy inverted then 1 - r else r);
          toAbsolute' = (\<lambda>r. if truthy inverted then mn + (1 - r) * rng
                              else mn + r * rng);
          convertTo' = (\<lambda>otherScale a. convertScaleTo otherScale a toRatio');
          applyDeltaTo' = (\<lambda>otherScale delta otherCurrent.
                             applyDeltaToScale otherScale delta otherCurrent toAbsolute' toRatio')
      in \<lparr>toRatio = toRatio', toAbsolute = toAbsolute',
          applyDeltaTo = applyDeltaTo', convertTo = convertTo',
          min_s = mn, max_s = mx\<rparr>)"

definition rasteredLinearScale ::
  "real \<Rightarrow> real \<Rightarrow> real \<Rightarrow> bool option \<Rightarrow> ('o Scale) Scale" where
  "rasteredLinearScale mn mx stepSize inverted =
     (let delegate = (linearScale mn mx inverted :: ('o Scale) Scale);
          toRatio' = (\<lambda>a. let rastered = Math_round (a / stepSize) * stepSize in
                           toRatio delegate rastered);
          toAbsolute' = (\<lambda>r. let a = toAbsolute delegate r in
                              Math_round (a / stepSize) * stepSize);
          convertTo' = (\<lambda>otherScale a. convertScaleTo otherScale a toRatio');
          applyDeltaTo' = (\<lambda>otherScale delta otherCurrent.
                             applyDeltaToScale otherScale delta otherCurrent toAbsolute' toRatio')
      in \<lparr>toRatio = toRatio', toAbsolute = toAbsolute',
          applyDeltaTo = applyDeltaTo', convertTo = convertTo',
          min_s = mn, max_s = mx\<rparr>)"

definition logarithmicScale :: "real \<Rightarrow> real \<Rightarrow> bool option \<Rightarrow> ('o Scale) Scale" where
  "logarithmicScale mn mx inverted =
     (let sign = Math_sign mn;
          logMin = (if sign < 0 then Math_log10 (sign * mx) else Math_log10 (sign * mn));
          logMax = (if sign < 0 then Math_log10 (sign * mn) else Math_log10 (sign * mx));
          logRange = logMax - logMin;
          toRatio' = (\<lambda>a. let logAbs = Math_log10 (sign * a);
                               r = (logAbs - logMin) / logRange in
                           if truthy inverted then 1 - r else r);
          toAbsolute' = (\<lambda>r. if truthy inverted
                              then (let logAbs = logMin + (1 - r) * logRange in
                                    sign * Math_pow 10 logAbs)
                              else (let logAbs = logMin + r * logRange in
                                    sign * Math_pow 10 logAbs));
          convertTo' = (\<lambda>otherScale a. convertScaleTo otherScale a toRatio');
          applyDeltaTo' = (\<lambda>otherScale delta otherCurrent.
                             applyDeltaToScale otherScale delta otherCurrent toAbsolute' toRatio')
      in \<lparr>toRatio = toRatio', toAbsolute = toAbsolute',
          applyDeltaTo = applyDeltaTo', convertTo = convertTo',
          min_s = mn, max_s = mx\<rparr>)"

definition noopScale :: "('o Scale) ScaleOps" where
  "noopScale =
     \<lparr>toRatio = (\<lambda>v. v), toAbsolute = (\<lambda>v. v),
      applyDeltaTo = (\<lambda>other d c. c + d), convertTo = (\<lambda>other v. v)\<rparr>"

section \<open>Binary64 numbers\<close>

text \<open>
  The second model keeps what the first leaves out. A \<open>number\<close> is a finite value,
  negative zero, an infinity or \<^verbatim>\<open>NaN\<close>; \<open>Finite 0\<close> is positive zero, and
  \<open>Finite x\<close> is a JavaScript number when \<open>x\<close> is representable in binary64. Each
  arithmetic operation takes the exact result and rounds it to the nearest binary64 value,
  ties to even (\<open>round_f64\<close>, with the spacing \<open>quantum\<close> of the values around \<open>x\<close>,
  which stops shrinking at the subnormals). A rounded magnitude of \<open>2 ^ 1024\<close> or more
  overflows to an infinity, and a result that rounds to zero keeps its sign. The special
  cases of the operations are those of IEEE 754: an invalid operation (\<open>0 / 0\<close>,
  \<open>\<infinity> - \<infinity>\<close>, \<open>0 * \<infinity>\<close>) gives \<^verbatim>\<open>NaN\<close>, a division of a non-zero value by zero an
  infinity, and every operation on \<^verbatim>\<open>NaN\<close> gives \<^verbatim>\<open>NaN\<close>.

  \<open>num_le\<close> is the comparison \<^verbatim>\<open><=\<close>: false when either side is \<^verbatim>\<open>NaN\<close>, and it
  takes the two zeros as equal. \<^verbatim>\<open>Math.max\<close> and \<^verbatim>\<open>Math.min\<close> follow ECMAScript: the
  result is \<^verbatim>\<open>NaN\<close> when an argument is \<^verbatim>\<open>NaN\<close>, and positive zero counts as larger
  than negative zero.

  On this model the clamping decorator and the linear scale are written a second time, from
  the same source lines, with the suffix \<open>_f64\<close>.
\<close>

datatype number = Finite real | NegZero | PosInf | NegInf | NaN

fun fin_val :: "number \<Rightarrow> real" where
  "fin_val (Finite x) = x"
| "fin_val _ = 0"

fun is_inf :: "number \<Rightarrow> bool" where
  "is_inf PosInf = True"
| "is_inf NegInf = True"
| "is_inf _ = False"

fun is_zero :: "number \<Rightarrow> bool" where
  "is_zero (Finite x) = (x = 0)"
| "is_zero NegZero = True"
| "is_zero _ = False"

fun negative :: "number \<Rightarrow> bool" where
  "negative (Finite x) = (x < 0)"
| "negative NegZero = True"
| "negative NegInf = True"
| "negative _ = False"

definition signed_zero :: "bool \<Rightarrow> number" where
  "signed_zero neg = (if neg then NegZero else Finite 0)"

definition signed_inf :: "bool \<Rightarrow> number" where
  "signed_inf neg = (if neg then NegInf else PosInf)"

definition round_ties_even :: "real \<Rightarrow> int" where
  "round_ties_even q =
     (let f = \<lfloor>q\<rfloor>; d = q - of_int f
      in if d < 1 / 2 then f else if 1 / 2 < d then f + 1
         else if even f then f else f + 1)"

definition binade :: "real \<Rightarrow> int" where
  "binade x = \<lfloor>log 2 \<bar>x\<bar>\<rfloor>"

definition quantum :: "real \<Rightarrow> real" where
  "quantum x = 2 powr of_int (max (binade x) (- 1022) - 52)"

definition round_f64 :: "real \<Rightarrow> real" where
  "round_f64 x = (if x = 0 then 0 else of_int (round_ties_even (x / quantum x)) * quantum x)"

definition fl64 :: "real \<Rightarrow> number" where
  "fl64 x =
     (let y = round_f64 x
      in if 2 ^ 1024 \<le> \<bar>y\<bar> then signed_inf (x < 0)
         else if y = 0 then signed_zero (x < 0)
         else Finite y)"

definition f64_neg :: "number \<Rightarrow> number" where
  "f64_neg a =
     (case a of Finite x \<Rightarrow> (if x = 0 then NegZero else Finite (- x))
      | NegZero \<Rightarrow> Finite 0 | PosInf \<Rightarrow> NegInf | NegInf \<Rightarrow> PosInf | NaN \<Rightarrow> NaN)"

definition f64_add :: "number \<Rightarrow> number \<Rightarrow> number" where
  "f64_add a b =
     (if a = NaN \<or> b = NaN then NaN
      else if is_inf a then (if is_inf b \<and> a \<noteq> b then NaN else a)
      else if is_inf b then b
      else if is_zero a \<and> is_zero b then signed_zero (negative a \<and> negative b)
      else if fin_val a + fin_val b = 0 then Finite 0
      else fl64 (fin_val a + fin_val b))"

definition f64_sub :: "number \<Rightarrow> number \<Rightarrow> number" where
  "f64_sub a b = f64_add a (f64_neg b)"

definition f64_mul :: "number \<Rightarrow> number \<Rightarrow> number" where
  "f64_mul a b =
     (if a = NaN \<or> b = NaN then NaN
      else if is_inf a \<or> is_inf b
        then (if is_zero a \<or> is_zero b then NaN else signed_inf (negative a \<noteq> negative b))
      else if is_zero a \<or> is_zero b then signed_zero (negative a \<noteq> negative b)
      else fl64 (fin_val a * fin_val b))"

definition f64_div :: "number \<Rightarrow> number \<Rightarrow> number" where
  "f64_div a b =
     (if a = NaN \<or> b = NaN then NaN
      else if is_inf a then (if is_inf b then NaN else signed_inf (negative a \<noteq> negative b))
      else if is_inf b then signed_zero (negative a \<noteq> negative b)
      else if is_zero b
        then (if is_zero a then NaN else signed_inf (negative a \<noteq> negative b))
      else if is_zero a then signed_zero (negative a \<noteq> negative b)
      else fl64 (fin_val a / fin_val b))"

definition num_le :: "number \<Rightarrow> number \<Rightarrow> bool" where
  "num_le a b =
     (a \<noteq> NaN \<and> b \<noteq> NaN \<and>
      (a = NegInf \<or> b = PosInf \<or> (\<not> is_inf a \<and> \<not> is_inf b \<and> fin_val a \<le> fin_val b)))"

definition num_lt :: "number \<Rightarrow> number \<Rightarrow> bool" where
  "num_lt a b = (num_le a b \<and> \<not> num_le b a)"

definition Math_max_f64 :: "number \<Rightarrow> number \<Rightarrow> number" where
  "Math_max_f64 a b =
     (if a = NaN \<or> b = NaN then NaN
      else if num_lt a b then b else if num_lt b a then a
      else if a = NegZero then b else a)"

definition Math_min_f64 :: "number \<Rightarrow> number \<Rightarrow> number" where
  "Math_min_f64 a b =
     (if a = NaN \<or> b = NaN then NaN
      else if num_lt a b then a else if num_lt b a then b
      else if a = NegZero then a else b)"

record 'o Scale_f64 =
  min_f64 :: number
  max_f64 :: number
  toRatio_f64 :: "number \<Rightarrow> number"
  toAbsolute_f64 :: "number \<Rightarrow> number"
  applyDeltaTo_f64 :: "'o \<Rightarrow> number \<Rightarrow> number \<Rightarrow> number"
  convertTo_f64 :: "'o \<Rightarrow> number \<Rightarrow> number"

definition clampedToRatio_f64 :: "number \<Rightarrow> (number \<Rightarrow> number) \<Rightarrow> number" where
  "clampedToRatio_f64 v toRatio' = Math_max_f64 (Finite 0) (Math_min_f64 (toRatio' v) (Finite 1))"

definition clampedToAbsolute_f64 ::
  "number \<Rightarrow> number \<Rightarrow> number \<Rightarrow> (number \<Rightarrow> number) \<Rightarrow> number" where
  "clampedToAbsolute_f64 ratio mn mx toAbsolute' =
     Math_max_f64 mn (Math_min_f64 (toAbsolute' ratio) mx)"

definition clamped_f64 :: "'o Scale_f64 \<Rightarrow> 'o Scale_f64" where
  "clamped_f64 scale =
     scale\<lparr>toRatio_f64 := (\<lambda>v. clampedToRatio_f64 v (toRatio_f64 scale)),
           toAbsolute_f64 := (\<lambda>r. clampedToAbsolute_f64 r (min_f64 scale) (max_f64 scale)
                                     (toAbsolute_f64 scale))\<rparr>"

definition convertScaleTo_f64 :: "'o Scale_f64 \<Rightarrow> number \<Rightarrow> (number \<Rightarrow> number) \<Rightarrow> number" where
  "convertScaleTo_f64 otherScale a toRatio' =
     (let ratio = toRatio' a in toAbsolute_f64 otherScale ratio)"

definition applyDeltaToScale_f64 ::
  "'o Scale_f64 \<Rightarrow> number \<Rightarrow> number \<Rightarrow> (number \<Rightarrow> number) \<Rightarrow> (number \<Rightarrow> number) \<Rightarrow> number" where
  "applyDeltaToScale_f64 otherScale delta otherCurrent toAbsolute' toRatio' =
     (let currentRatio = toRatio_f64 otherScale otherCurrent;
          currentAbs = toAbsolute' currentRatio;
          newAbs = f64_add currentAbs delta;
          newRatio = toRatio' newAbs
      in toAbsolute_f64 otherScale newRatio)"

definition linearScale_f64 ::
  "number \<Rightarrow> number \<Rightarrow> bool option \<Rightarrow> ('o Scale_f64) Scale_f64" where
  "linearScale_f64 mn mx inverted =
     (let rng = f64_sub mx mn;
          toRatio' = (\<lambda>a. let r = f64_div (f64_sub a mn) rng in
                           if truthy inverted then f64_sub (Finite 1) r else r);
          toAbsolute' = (\<lambda>r. if truthy inverted
                              then f64_add mn (f64_mul (f64_sub (Finite 1) r) rng)
                              else f64_add mn (f64_mul r rng));
          convertTo' = (\<lambda>otherScale a. convertScaleTo_f64 otherScale a toRatio');
          applyDeltaTo' = (\<lambda>otherScale delta otherCurrent.
                             applyDeltaToScale_f64 otherScale delta otherCurrent
                               toAbsolute' toRatio')
      in \<lparr>min_f64 = mn, max_f64 = mx, toRatio_f64 = toRatio', toAbsolute_f64 = toAbsolute',
          applyDeltaTo_f64 = applyDeltaTo', convertTo_f64 = convertTo'\<rparr>)"

section \<open>Projections of the constructed scales\<close>

lemma linearScale_toRatio:
  "toRatio (linearScale mn mx inverted) a =
     (if truthy inverted then 1 - (a - mn) / (mx - mn) else (a - mn) / (mx - mn))"
  by (simp add: linearScale_def Let_def)

lemma linearScale_toAbsolute:
  "toAbsolute (linearScale mn mx inverted) r =
     (if truthy inverted then mn + (1 - r) * (mx - mn) else mn + r * (mx - mn))"
  by (simp add: linearScale_def Let_def)

lemma linearScale_convertTo:
  "convertTo (linearScale mn mx inverted :: ('o Scale) Scale) other a =
     toAbsolute other (toRatio (linearScale mn mx inverted :: ('o Scale) Scale) a)"
  by (simp add: linearScale_def convertScaleTo_def Let_def)

lemma linearScale_applyDeltaTo:
  "applyDeltaTo (linearScale mn mx inverted :: ('o Scale) Scale) other delta c =
     toAbsolute other (toRatio (linearScale mn mx inverted :: ('o Scale) Scale)
       (toAbsolute (linearScale mn mx inverted :: ('o Scale) Scale) (toRatio other c) + delta))"
  by (simp add: linearScale_def applyDeltaToScale_def Let_def)

lemma rasteredLinearScale_toRatio:
  "toRatio (rasteredLinearScale mn mx stepSize inverted :: ('o Scale) Scale) a =
     toRatio (linearScale mn mx inverted :: ('o Scale) Scale)
       (Math_round (a / stepSize) * stepSize)"
  by (simp add: rasteredLinearScale_def Let_def)

lemma rasteredLinearScale_toAbsolute:
  "toAbsolute (rasteredLinearScale mn mx stepSize inverted :: ('o Scale) Scale) r =
     Math_round (toAbsolute (linearScale mn mx inverted :: ('o Scale) Scale) r / stepSize)
       * stepSize"
  by (simp add: rasteredLinearScale_def Let_def)

lemma rasteredLinearScale_convertTo:
  "convertTo (rasteredLinearScale mn mx stepSize inverted :: ('o Scale) Scale) other a =
     toAbsolute other
       (toRatio (rasteredLinearScale mn mx stepSize inverted :: ('o Scale) Scale) a)"
  by (simp add: rasteredLinearScale_def convertScaleTo_def Let_def)

lemma rasteredLinearScale_applyDeltaTo:
  "applyDeltaTo (rasteredLinearScale mn mx stepSize inverted :: ('o Scale) Scale) other delta c =
     toAbsolute other
       (toRatio (rasteredLinearScale mn mx stepSize inverted :: ('o Scale) Scale)
         (toAbsolute (rasteredLinearScale mn mx stepSize inverted :: ('o Scale) Scale)
            (toRatio other c) + delta))"
  by (simp add: rasteredLinearScale_def applyDeltaToScale_def Let_def)

lemma logarithmicScale_convertTo:
  "convertTo (logarithmicScale mn mx inverted :: ('o Scale) Scale) other a =
     toAbsolute other (toRatio (logarithmicScale mn mx inverted :: ('o Scale) Scale) a)"
  by (simp add: logarithmicScale_def convertScaleTo_def Let_def)

lemma logarithmicScale_applyDeltaTo:
  "applyDeltaTo (logarithmicScale mn mx inverted :: ('o Scale) Scale) other delta c =
     toAbsolute other (toRatio (logarithmicScale mn mx inverted :: ('o Scale) Scale)
       (toAbsolute (logarithmicScale mn mx inverted :: ('o Scale) Scale)
          (toRatio other c) + delta))"
  by (simp add: logarithmicScale_def applyDeltaToScale_def Let_def)

lemma logarithmicScale_toRatio:
  "toRatio (logarithmicScale mn mx inverted) a =
     (let sign = Math_sign mn;
          logMin = (if sign < 0 then Math_log10 (sign * mx) else Math_log10 (sign * mn));
          logMax = (if sign < 0 then Math_log10 (sign * mn) else Math_log10 (sign * mx));
          r = (Math_log10 (sign * a) - logMin) / (logMax - logMin)
      in if truthy inverted then 1 - r else r)"
  by (simp add: logarithmicScale_def Let_def)

lemma logarithmicScale_toAbsolute:
  "toAbsolute (logarithmicScale mn mx inverted) r =
     (let sign = Math_sign mn;
          logMin = (if sign < 0 then Math_log10 (sign * mx) else Math_log10 (sign * mn));
          logMax = (if sign < 0 then Math_log10 (sign * mn) else Math_log10 (sign * mx))
      in if truthy inverted then sign * Math_pow 10 (logMin + (1 - r) * (logMax - logMin))
         else sign * Math_pow 10 (logMin + r * (logMax - logMin)))"
  by (simp add: logarithmicScale_def Let_def)

section \<open>Facts about the numeric primitives\<close>

lemma log10_1000: "log 10 1000 = 3"
  using log_pow_cancel [of 10 3] by simp

lemma powr_three_halves: "(10::real) powr (3 / 2) = 10 * sqrt 10"
  by (simp add: powr_half_sqrt powr_add [of 10 1 "1 / 2", simplified])

lemma sqrt_10_bounds:
  "(316227 / 100000 :: real) < sqrt 10 \<and> sqrt 10 < (316228 / 100000 :: real)"
proof
  show "(316227 / 100000 :: real) < sqrt 10"
    by (rule real_less_rsqrt) (simp add: power2_eq_square)
  show "sqrt 10 < (316228 / 100000 :: real)"
    by (rule real_less_lsqrt) (simp_all add: power2_eq_square)
qed

lemma log_diff_nonzero:
  assumes "0 < a" and "0 < b" and "a \<noteq> b"
  shows "log 10 b - log 10 a \<noteq> 0"
proof (cases "a < b")
  case True
  with assms have "log 10 a < log 10 b" by simp
  then show ?thesis by simp
next
  case False
  with assms have "log 10 b < log 10 a" by simp
  then show ?thesis by simp
qed

lemma Math_round_of_int: "Math_round (of_int k) = of_int k"
  by (simp add: Math_round_def)

lemma snap_idem:
  assumes "stepSize \<noteq> 0"
  shows "Math_round (Math_round (a / stepSize) * stepSize / stepSize) * stepSize =
         Math_round (a / stepSize) * stepSize"
proof -
  obtain k :: int where k: "Math_round (a / stepSize) = of_int k"
    by (simp add: Math_round_def)
  show ?thesis using assms by (simp add: k Math_round_of_int)
qed

lemma snap_nearest:
  assumes "0 < stepSize"
  shows "\<bar>Math_round (x / stepSize) * stepSize - x\<bar> \<le> stepSize / 2"
proof -
  have h: "\<bar>Math_round (x / stepSize) - x / stepSize\<bar> \<le> 1 / 2"
    using of_int_round_abs_le [of "x / stepSize"] by (simp add: Math_round_def round_def)
  have "(Math_round (x / stepSize) - x / stepSize) * stepSize
      = Math_round (x / stepSize) * stepSize - x"
    using assms by (simp add: left_diff_distrib)
  then have "\<bar>Math_round (x / stepSize) * stepSize - x\<bar>
      = \<bar>Math_round (x / stepSize) - x / stepSize\<bar> * \<bar>stepSize\<bar>"
    by (simp only: abs_mult [symmetric])
  also have "\<dots> \<le> (1 / 2) * \<bar>stepSize\<bar>"
    using h by (rule mult_right_mono) simp
  finally show ?thesis using assms by simp
qed

lemma snap_tie:
  assumes "x / stepSize = of_int k + 1 / 2"
  shows "Math_round (x / stepSize) * stepSize = (of_int k + 1) * stepSize"
proof -
  from assms have "Math_round (x / stepSize) = of_int (k + 1)"
    by (simp add: Math_round_def)
  then show ?thesis by simp
qed

lemma neg_log_toAbsolute:
  "toAbsolute (logarithmicScale (- 1000) (- 1) None) r = - (10 powr (r * 3))"
  by (simp add: logarithmicScale_toAbsolute Let_def Math_sign_def Math_log10_def Math_pow_def
      truthy_def log10_1000)

section \<open>Facts about the binary64 model\<close>

lemma round_ties_even_of_int: "round_ties_even (of_int k) = k"
  by (simp add: round_ties_even_def)

lemma binade_eq:
  assumes "2 powr of_int n \<le> \<bar>x\<bar>" and "\<bar>x\<bar> < 2 powr (of_int n + 1)"
  shows "binade x = n"
proof -
  have pos: "0 < \<bar>x\<bar>" using assms(1) powr_gt_zero [of 2 "of_int n"] by linarith
  have "of_int n \<le> log 2 \<bar>x\<bar>" using assms(1) pos by (simp add: le_log_iff)
  moreover have "log 2 \<bar>x\<bar> < of_int n + 1" using assms(2) pos by (simp add: log_less_iff)
  ultimately show ?thesis unfolding binade_def by (simp add: floor_eq_iff)
qed

lemma round_f64_exact:
  assumes x: "x = of_int m * 2 powr of_int e" and m: "\<bar>m\<bar> < 2 ^ 53" and e: "- 1074 \<le> e"
  shows "round_f64 x = x"
proof (cases "x = 0")
  case True
  then show ?thesis by (simp add: round_f64_def)
next
  case False
  then have pos: "0 < \<bar>x\<bar>" by simp
  have "\<bar>x\<bar> = of_int \<bar>m\<bar> * 2 powr of_int e" by (simp add: x abs_mult)
  also have "\<dots> < 2 ^ 53 * 2 powr of_int e"
  proof -
    have "(of_int \<bar>m\<bar> :: real) < of_int (2 ^ 53)" using m by (simp only: of_int_less_iff)
    then show ?thesis by simp
  qed
  also have "\<dots> = 2 powr (of_int e + 53)" by (simp add: powr_add)
  finally have "log 2 \<bar>x\<bar> < of_int e + 53" using pos by (simp add: log_less_iff)
  then have "binade x < e + 53" unfolding binade_def by (simp add: floor_less_iff)
  then have j: "max (binade x) (- 1022) - 52 \<le> e" using e by simp
  define j where "j = max (binade x) (- 1022) - 52"
  define d where "d = nat (e - j)"
  have ej: "e = j + int d" using j by (simp add: j_def d_def)
  have q: "quantum x = 2 powr of_int j" by (simp add: quantum_def j_def)
  have "x / quantum x = x / 2 powr of_int j" by (simp only: q)
  also have "\<dots> = of_int m * (2 powr of_int e / 2 powr of_int j)" by (simp add: x)
  also have "2 powr of_int e / 2 powr of_int j = (2::real) powr of_int (int d)"
    by (simp add: ej powr_add)
  also have "\<dots> = 2 ^ d" by (simp add: powr_realpow)
  finally have "x / quantum x = of_int (m * 2 ^ d)" by simp
  then have "round_ties_even (x / quantum x) = m * 2 ^ d"
    by (simp only: round_ties_even_of_int)
  then have "round_f64 x = of_int (m * 2 ^ d) * 2 powr of_int j"
    using False by (simp add: round_f64_def q)
  also have "\<dots> = of_int m * (2 powr of_int (int d) * 2 powr of_int j)"
    by (simp add: powr_realpow)
  also have "2 powr of_int (int d) * 2 powr of_int j = (2::real) powr of_int e"
    by (simp add: ej powr_add)
  finally show ?thesis by (simp add: x)
qed


lemma fl64_exact:
  assumes "x = of_int m * 2 powr of_int e" and "\<bar>m\<bar> < 2 ^ 53" and "- 1074 \<le> e"
    and "x \<noteq> 0" and "\<bar>x\<bar> < 2 ^ 1024"
  shows "fl64 x = Finite x"
  using assms round_f64_exact [of x m e] by (simp add: fl64_def Let_def)

lemma fl64_150: "fl64 150 = Finite 150"
  by (rule fl64_exact [of _ 75 1]) simp_all
lemma fl64_100: "fl64 100 = Finite 100"
  by (rule fl64_exact [of _ 25 2]) simp_all
lemma fl64_three_halves: "fl64 (3 / 2) = Finite (3 / 2)"
  by (rule fl64_exact [of _ 3 "- 1"]) simp_all
lemma fl64_half: "fl64 (1 / 2) = Finite (1 / 2)"
  by (rule fl64_exact [of _ 1 "- 1"]) simp_all
lemma fl64_1e20: "fl64 100000000000000000000 = Finite 100000000000000000000"
  by (rule fl64_exact [of _ 95367431640625 20]) simp_all
lemma fl64_2e20: "fl64 200000000000000000000 = Finite 200000000000000000000"
  by (rule fl64_exact [of _ 95367431640625 21]) simp_all

lemma binade_1e20_1: "binade 100000000000000000001 = 66"
  by (rule binade_eq) simp_all

lemma fl64_1e20_plus_1: "fl64 100000000000000000001 = Finite 100000000000000000000"
proof -
  have q: "quantum 100000000000000000001 = 16384"
    by (simp add: quantum_def binade_1e20_1)
  have f: "\<lfloor>100000000000000000001 / 16384 :: real\<rfloor> = 6103515625000000"
    by simp
  have r: "round_ties_even (100000000000000000001 / 16384) = 6103515625000000"
    unfolding round_ties_even_def Let_def f by simp
  have "round_f64 100000000000000000001 = 100000000000000000000"
    by (simp add: round_f64_def q r)
  then show ?thesis by (simp add: fl64_def Let_def)
qed


lemma linearScale_f64_toRatio:
  "toRatio_f64 (linearScale_f64 mn mx inverted) a =
     (let r = f64_div (f64_sub a mn) (f64_sub mx mn)
      in if truthy inverted then f64_sub (Finite 1) r else r)"
  by (simp add: linearScale_f64_def Let_def)

lemma linearScale_f64_toAbsolute:
  "toAbsolute_f64 (linearScale_f64 mn mx inverted) r =
     (if truthy inverted then f64_add mn (f64_mul (f64_sub (Finite 1) r) (f64_sub mx mn))
      else f64_add mn (f64_mul r (f64_sub mx mn)))"
  by (simp add: linearScale_f64_def Let_def)

lemma linearScale_f64_bounds:
  "min_f64 (linearScale_f64 mn mx inverted) = mn \<and> max_f64 (linearScale_f64 mn mx inverted) = mx"
  by (simp add: linearScale_f64_def Let_def)

lemma clamped_f64_toRatio:
  "toRatio_f64 (clamped_f64 s) v =
     Math_max_f64 (Finite 0) (Math_min_f64 (toRatio_f64 s v) (Finite 1))"
  by (simp add: clamped_f64_def clampedToRatio_f64_def)

lemma clamped_f64_toAbsolute:
  "toAbsolute_f64 (clamped_f64 s) r =
     Math_max_f64 (min_f64 s) (Math_min_f64 (toAbsolute_f64 s r) (max_f64 s))"
  by (simp add: clamped_f64_def clampedToAbsolute_f64_def)

lemmas f64_ops = f64_add_def f64_sub_def f64_mul_def f64_div_def f64_neg_def
  signed_zero_def signed_inf_def

lemma clamp_ratio_bounds:
  assumes "x \<noteq> NaN"
  shows "num_le (Finite 0) (Math_max_f64 (Finite 0) (Math_min_f64 x (Finite 1))) \<and>
         num_le (Math_max_f64 (Finite 0) (Math_min_f64 x (Finite 1))) (Finite 1)"
  using assms
  by (cases x) (auto simp add: Math_max_f64_def Math_min_f64_def num_le_def num_lt_def)

lemma clamp_nan:
  "Math_max_f64 lo (Math_min_f64 x hi) = NaN \<longleftrightarrow> lo = NaN \<or> x = NaN \<or> hi = NaN"
  by (simp add: Math_max_f64_def Math_min_f64_def)

lemma clamp_between:
  assumes "lo \<noteq> NaN" and "hi \<noteq> NaN" and "x \<noteq> NaN"
  shows "num_le (Math_min_f64 lo hi) (Math_max_f64 lo (Math_min_f64 x hi)) \<and>
         num_le (Math_max_f64 lo (Math_min_f64 x hi)) (Math_max_f64 lo hi)"
  using assms
  by (cases lo; cases hi; cases x)
     (auto simp add: Math_max_f64_def Math_min_f64_def num_le_def num_lt_def)

lemma clamp_ordered:
  assumes "lo \<noteq> NaN" and "hi \<noteq> NaN" and "x \<noteq> NaN" and "num_le lo hi"
  shows "num_le lo (Math_max_f64 lo (Math_min_f64 x hi)) \<and>
         num_le (Math_max_f64 lo (Math_min_f64 x hi)) hi"
  using assms
  by (cases lo; cases hi; cases x)
     (auto simp add: Math_max_f64_def Math_min_f64_def num_le_def num_lt_def)

lemma clamp_reversed:
  assumes "x \<noteq> NaN" and "num_lt hi lo"
  shows "Math_max_f64 lo (Math_min_f64 x hi) = lo"
  using assms
  by (cases lo; cases hi; cases x)
     (auto simp add: Math_max_f64_def Math_min_f64_def num_le_def num_lt_def)


lemma fl64_neg_100: "fl64 (- 100) = Finite (- 100)"
  by (rule fl64_exact [of _ "- 25" 2]) simp_all
lemma fl64_neg_50: "fl64 (- 50) = Finite (- 50)"
  by (rule fl64_exact [of _ "- 25" 1]) simp_all
lemma fl64_50: "fl64 50 = Finite 50"
  by (rule fl64_exact [of _ 25 1]) simp_all

lemma example_toRatio_150:
  "toRatio_f64 (linearScale_f64 (Finite 0) (Finite 100) None) (Finite 150) = Finite (3 / 2)"
  by (simp add: linearScale_f64_toRatio Let_def truthy_def f64_ops
      fl64_150 fl64_100 fl64_three_halves)

lemma example_toAbsolute_three_halves:
  "toAbsolute_f64 (linearScale_f64 (Finite 0) (Finite 100) None) (Finite (3 / 2)) = Finite 150"
  by (simp add: linearScale_f64_toAbsolute truthy_def f64_ops fl64_150 fl64_100)

lemma example_reversed_toAbsolute_half:
  "toAbsolute_f64 (linearScale_f64 (Finite 100) (Finite 0) None) (Finite (1 / 2)) = Finite 50"
  by (simp add: linearScale_f64_toAbsolute truthy_def f64_ops fl64_neg_100 fl64_neg_50 fl64_50)

section \<open>Cross-scale conversion from a linear to a logarithmic scale\<close>

text \<open>
  C1, as stated: with \<open>linear = linearScale(0,100)\<close> and
  \<open>log = logarithmicScale(-1000,-1)\<close>, \<open>linear.convertTo(log, 0)\<close> is about \<open>-1000\<close>.
  It is not: for a negative range the constructor takes \<open>logMin\<close> from \<open>max\<close>, so the
  ratio \<open>0\<close> is the end of smaller magnitude and \<open>linear.convertTo(log, 0) = -1\<close>.
\<close>

theorem linear_to_log_counterexample:
  "convertTo (linearScale 0 100 None) (logarithmicScale (- 1000) (- 1) None) 0 = - 1 \<and>
   \<not> \<bar>convertTo (linearScale 0 100 None) (logarithmicScale (- 1000) (- 1) None) 0
        - (- 1000)\<bar> \<le> 1"
  by (simp add: linearScale_convertTo linearScale_toRatio neg_log_toAbsolute truthy_def)

text \<open>
  C1, amended: with \<open>linear = linearScale(0,100)\<close> and \<open>log = logarithmicScale(-1000,-1)\<close>,
  \<open>convertTo(other, v) = other.toAbsolute(this.toRatio(v))\<close>, and
  \<open>linear.convertTo(log, 0) = -1\<close>, \<open>linear.convertTo(log, 100) = -1000\<close> and
  \<open>linear.convertTo(log, 50) = -10^1.5\<close>, which is \<open>-31.6228\<close> to four decimal places.
\<close>

theorem linear_to_log_conversion:
  "(let linear = linearScale 0 100 None;
        log = logarithmicScale (- 1000) (- 1) None
    in (\<forall>v. convertTo linear log v = toAbsolute log (toRatio linear v)) \<and>
       convertTo linear log 0 = - 1 \<and>
       convertTo linear log 100 = - 1000 \<and>
       convertTo linear log 50 = - (10 powr (3 / 2)) \<and>
       \<bar>convertTo linear log 50 - (- 31.6228)\<bar> < 1 / 10 ^ 4)"
proof -
  have ap: "\<bar>- ((10::real) powr (3 / 2)) - (- 31.6228)\<bar> < 1 / 10 ^ 4"
    unfolding powr_three_halves using sqrt_10_bounds by (simp add: abs_less_iff)
  show ?thesis
    unfolding Let_def linearScale_convertTo
    using ap by (simp add: linearScale_toRatio neg_log_toAbsolute truthy_def)
qed

section \<open>Applying a delta across scales\<close>

text \<open>
  C2. For every scale \<open>A\<close> built by \<open>linearScale\<close>, \<open>rasteredLinearScale\<close> or
  \<open>logarithmicScale\<close>, every scale \<open>B\<close> and all numbers \<open>delta\<close> and \<open>c\<close>,
  \<open>A.applyDeltaTo(B, delta, c) = B.toAbsolute(A.toRatio(A.toAbsolute(B.toRatio(c)) + delta))\<close>.
  For \<open>linearScale(0,100).applyDeltaTo(linearScale(0,200), 10, 50)\<close> the formula yields \<open>70\<close>.
\<close>

theorem applyDeltaTo_five_steps:
  "(let A = linearScale mn mx inverted
    in applyDeltaTo A B delta c = toAbsolute B (toRatio A (toAbsolute A (toRatio B c) + delta))) \<and>
   (let A = rasteredLinearScale mn mx stepSize inverted
    in applyDeltaTo A B delta c = toAbsolute B (toRatio A (toAbsolute A (toRatio B c) + delta))) \<and>
   (let A = logarithmicScale mn mx inverted
    in applyDeltaTo A B delta c = toAbsolute B (toRatio A (toAbsolute A (toRatio B c) + delta))) \<and>
   (let A = linearScale 0 100 None; other = linearScale 0 200 None
    in applyDeltaTo A other 10 50
         = toAbsolute other (toRatio A (toAbsolute A (toRatio other 50) + 10)) \<and>
       applyDeltaTo A other 10 50 = 70)"
proof -
  have "applyDeltaTo (linearScale 0 100 None) (linearScale 0 200 None) 10 50 = 70"
    by (simp add: linearScale_applyDeltaTo linearScale_toRatio linearScale_toAbsolute truthy_def)
  then show ?thesis
    unfolding Let_def
    by (simp only: linearScale_applyDeltaTo rasteredLinearScale_applyDeltaTo
        logarithmicScale_applyDeltaTo simp_thms)
qed

text \<open>
  C10. In exact arithmetic, for linear scales \<open>A\<close> and \<open>B\<close> with \<open>min \<noteq> max\<close> each,
  whatever their \<open>inverted\<close> flags, applying a delta of zero returns the current value:
  \<open>A.applyDeltaTo(B, 0, c) = c\<close>.
\<close>

theorem zero_delta_identity:
  assumes "mnA \<noteq> mxA" and "mnB \<noteq> mxB"
  shows "applyDeltaTo (linearScale mnA mxA invA) (linearScale mnB mxB invB) 0 c = c"
  using assms
  by (simp add: linearScale_applyDeltaTo linearScale_toRatio linearScale_toAbsolute)

text \<open>Witness for C10: an inverted scale over \<open>[0, 100]\<close> against one built with \<open>min > max\<close>.\<close>

theorem zero_delta_identity_witness:
  "(0::real) \<noteq> 100 \<and> (200::real) \<noteq> 0 \<and>
   applyDeltaTo (linearScale 0 100 (Some True)) (linearScale 200 0 None) 0 50 = 50"
  using zero_delta_identity [of 0 100 200 0 "Some True" None 50] by simp

section \<open>Linear scales\<close>

text \<open>
  C3, as stated: for every \<open>linearScale(min, max, inverted)\<close> with \<open>min < max\<close> and every
  \<open>x\<close> in \<open>[min, max]\<close>, \<open>toAbsolute(toRatio(x))\<close> equals \<open>x\<close> in exact arithmetic and is
  within \<open>1e-9\<close> of \<open>x\<close> in floating point. The second part fails in binary64: for
  \<open>linearScale(-1e20, 1e20)\<close> and \<open>x = 1\<close>, \<open>x - min\<close> rounds to \<open>1e20\<close>, the ratio is
  \<open>1/2\<close> and \<open>toAbsolute\<close> returns \<open>0\<close>.
\<close>

theorem linearScale_round_trip_counterexample:
  "toAbsolute_f64
     (linearScale_f64 (Finite (- 100000000000000000000)) (Finite 100000000000000000000) None)
     (toRatio_f64
        (linearScale_f64 (Finite (- 100000000000000000000)) (Finite 100000000000000000000) None)
        (Finite 1)) = Finite 0 \<and>
   \<not> num_le (Finite (1 - 1 / 10 ^ 9))
       (toAbsolute_f64
          (linearScale_f64 (Finite (- 100000000000000000000)) (Finite 100000000000000000000) None)
          (toRatio_f64
             (linearScale_f64 (Finite (- 100000000000000000000)) (Finite 100000000000000000000)
                None)
             (Finite 1)))"
proof -
  have r: "toRatio_f64
        (linearScale_f64 (Finite (- 100000000000000000000)) (Finite 100000000000000000000) None)
        (Finite 1) = Finite (1 / 2)"
    by (simp add: linearScale_f64_toRatio Let_def truthy_def f64_ops
        fl64_2e20 fl64_1e20_plus_1 fl64_half)
  have a: "toAbsolute_f64
        (linearScale_f64 (Finite (- 100000000000000000000)) (Finite 100000000000000000000) None)
        (Finite (1 / 2)) = Finite 0"
    by (simp add: linearScale_f64_toAbsolute truthy_def f64_ops fl64_2e20 fl64_1e20)
  show ?thesis unfolding r a by (simp add: num_le_def)
qed

text \<open>
  C3, amended: for every \<open>linearScale(min, max, inverted)\<close> with \<open>min < max\<close>, inverted or
  not, and every \<open>x\<close> in \<open>[min, max]\<close>, \<open>toAbsolute(toRatio(x)) = x\<close> in exact real
  arithmetic.
\<close>

theorem linearScale_round_trip:
  assumes "mn < mx" and "mn \<le> x" and "x \<le> mx"
  shows "toAbsolute (linearScale mn mx inverted) (toRatio (linearScale mn mx inverted) x) = x"
  using assms by (simp add: linearScale_toRatio linearScale_toAbsolute)

text \<open>Witness for C3: the inverted scale over \<open>[0, 100]\<close> at \<open>x = 25\<close>.\<close>

theorem linearScale_round_trip_witness:
  "(0::real) < 100 \<and> (0::real) \<le> 25 \<and> (25::real) \<le> 100 \<and>
   toAbsolute (linearScale 0 100 (Some True)) (toRatio (linearScale 0 100 (Some True)) 25) = 25"
  using linearScale_round_trip [of 0 100 25 "Some True"] by simp

section \<open>Ratios at the bounds\<close>

text \<open>
  C4, as stated: for every non-degenerate linear or logarithmic scale that is not inverted,
  \<open>toRatio(min) = 0\<close> and \<open>toRatio(max) = 1\<close>. A logarithmic scale over a negative range
  does the opposite: for \<open>logarithmicScale(-1000, -1, false)\<close>, \<open>toRatio(min) = 1\<close> and
  \<open>toRatio(max) = 0\<close>.
\<close>

theorem toRatio_at_bounds_counterexample:
  "toRatio (logarithmicScale (- 1000) (- 1) (Some False)) (- 1000) = 1 \<and>
   toRatio (logarithmicScale (- 1000) (- 1) (Some False)) (- 1) = 0"
  by (simp add: logarithmicScale_toRatio Let_def Math_sign_def Math_log10_def truthy_def
      log10_1000)

text \<open>
  C4, amended: for a linear scale with \<open>min \<noteq> max\<close> and for a logarithmic scale with
  \<open>min\<close> and \<open>max\<close> positive and different, \<open>toRatio(min) = 0\<close> and \<open>toRatio(max) = 1\<close>
  when the scale is not inverted, \<open>toRatio(min) = 1\<close> and \<open>toRatio(max) = 0\<close> when it is.
  For a logarithmic scale with \<open>min\<close> and \<open>max\<close> negative and different it is the other
  way round: \<open>toRatio(min) = 1\<close> and \<open>toRatio(max) = 0\<close> when the scale is not inverted,
  \<open>toRatio(min) = 0\<close> and \<open>toRatio(max) = 1\<close> when it is.
\<close>

theorem toRatio_at_bounds:
  "(mn \<noteq> mx \<longrightarrow>
      toRatio (linearScale mn mx inverted) mn = (if truthy inverted then 1 else 0) \<and>
      toRatio (linearScale mn mx inverted) mx = (if truthy inverted then 0 else 1)) \<and>
   (0 < pmn \<and> 0 < pmx \<and> pmn \<noteq> pmx \<longrightarrow>
      toRatio (logarithmicScale pmn pmx inverted) pmn = (if truthy inverted then 1 else 0) \<and>
      toRatio (logarithmicScale pmn pmx inverted) pmx = (if truthy inverted then 0 else 1)) \<and>
   (nmn < 0 \<and> nmx < 0 \<and> nmn \<noteq> nmx \<longrightarrow>
      toRatio (logarithmicScale nmn nmx inverted) nmn = (if truthy inverted then 0 else 1) \<and>
      toRatio (logarithmicScale nmn nmx inverted) nmx = (if truthy inverted then 1 else 0))"
proof (intro conjI impI)
  assume "mn \<noteq> mx"
  then show "toRatio (linearScale mn mx inverted) mn = (if truthy inverted then 1 else 0)"
    and "toRatio (linearScale mn mx inverted) mx = (if truthy inverted then 0 else 1)"
    by (simp_all add: linearScale_toRatio)
next
  assume p: "0 < pmn \<and> 0 < pmx \<and> pmn \<noteq> pmx"
  then have "log 10 pmx - log 10 pmn \<noteq> 0"
    using log_diff_nonzero [of pmn pmx] by simp
  with p show
    "toRatio (logarithmicScale pmn pmx inverted) pmn = (if truthy inverted then 1 else 0)"
    and "toRatio (logarithmicScale pmn pmx inverted) pmx = (if truthy inverted then 0 else 1)"
    by (simp_all add: logarithmicScale_toRatio Let_def Math_sign_def Math_log10_def)
next
  assume n: "nmn < 0 \<and> nmx < 0 \<and> nmn \<noteq> nmx"
  then have "log 10 (- nmn) - log 10 (- nmx) \<noteq> 0"
    using log_diff_nonzero [of "- nmx" "- nmn"] by simp
  with n show
    "toRatio (logarithmicScale nmn nmx inverted) nmn = (if truthy inverted then 0 else 1)"
    and "toRatio (logarithmicScale nmn nmx inverted) nmx = (if truthy inverted then 1 else 0)"
    by (simp_all add: logarithmicScale_toRatio Let_def Math_sign_def Math_log10_def)
qed

text \<open>
  Witness for C4: \<open>linearScale(0, 100)\<close>, \<open>logarithmicScale(1, 1000)\<close> and
  \<open>logarithmicScale(-1000, -1)\<close>, none inverted.
\<close>

theorem toRatio_at_bounds_witness:
  "(0::real) \<noteq> 100 \<and> (0::real) < 1 \<and> (0::real) < 1000 \<and> (1::real) \<noteq> 1000 \<and>
   (- 1000::real) < 0 \<and> (- 1::real) < 0 \<and> (- 1000::real) \<noteq> - 1 \<and>
   toRatio (linearScale 0 100 None) 0 = 0 \<and> toRatio (linearScale 0 100 None) 100 = 1 \<and>
   toRatio (logarithmicScale 1 1000 None) 1 = 0 \<and>
   toRatio (logarithmicScale 1 1000 None) 1000 = 1 \<and>
   toRatio (logarithmicScale (- 1000) (- 1) None) (- 1000) = 1 \<and>
   toRatio (logarithmicScale (- 1000) (- 1) None) (- 1) = 0"
  using toRatio_at_bounds [of 0 100 None 1 1000 "- 1000" "- 1"] by (simp add: truthy_def)

section \<open>The clamped decorator\<close>

text \<open>
  C5, as stated: for every scale \<open>s\<close> and every input, \<open>clamped(s).toRatio(v)\<close> lies in
  \<open>[0, 1]\<close>. \<^verbatim>\<open>Math.max\<close> and \<^verbatim>\<open>Math.min\<close> return \<^verbatim>\<open>NaN\<close> on \<^verbatim>\<open>NaN\<close>, so a ratio
  that is \<^verbatim>\<open>NaN\<close> stays \<^verbatim>\<open>NaN\<close>: for \<open>linearScale(5, 5)\<close> the ratio of \<open>5\<close> is
  \<open>0 / 0\<close>, and the clamped scale returns it.
\<close>

theorem clamped_bounds_counterexample:
  "toRatio_f64 (linearScale_f64 (Finite 5) (Finite 5) None) (Finite 5) = NaN \<and>
   toRatio_f64 (clamped_f64 (linearScale_f64 (Finite 5) (Finite 5) None)) (Finite 5) = NaN \<and>
   \<not> num_le (Finite 0)
       (toRatio_f64 (clamped_f64 (linearScale_f64 (Finite 5) (Finite 5) None)) (Finite 5))"
proof -
  have r: "toRatio_f64 (linearScale_f64 (Finite 5) (Finite 5) None) (Finite 5) = NaN"
    by (simp add: linearScale_f64_toRatio Let_def truthy_def f64_ops)
  show ?thesis unfolding clamped_f64_toRatio r
    by (simp add: Math_max_f64_def Math_min_f64_def num_le_def)
qed

text \<open>
  C5, amended: for every scale \<open>s\<close> and every input, \<open>clamped(s).toRatio(v)\<close> lies in
  \<open>[0, 1]\<close> unless \<open>s.toRatio(v)\<close> is \<^verbatim>\<open>NaN\<close>, and is \<^verbatim>\<open>NaN\<close> exactly then;
  \<open>clamped(s).toAbsolute(r)\<close> is \<^verbatim>\<open>NaN\<close> exactly when \<open>s.min\<close>, \<open>s.max\<close> or
  \<open>s.toAbsolute(r)\<close> is, and otherwise lies between the smaller and the larger of \<open>s.min\<close>
  and \<open>s.max\<close>: in \<open>[s.min, s.max]\<close> when \<open>s.min \<le> s.max\<close>, and equal to \<open>s.min\<close>
  whatever \<open>r\<close> is when \<open>s.max < s.min\<close>. And
  \<open>clamped(linearScale(0,100)).toRatio(150) = 1\<close>.
\<close>

theorem clamped_bounds:
  "(toRatio_f64 s v \<noteq> NaN \<longrightarrow>
      num_le (Finite 0) (toRatio_f64 (clamped_f64 s) v) \<and>
      num_le (toRatio_f64 (clamped_f64 s) v) (Finite 1)) \<and>
   (toRatio_f64 (clamped_f64 s) v = NaN \<longleftrightarrow> toRatio_f64 s v = NaN) \<and>
   (toAbsolute_f64 (clamped_f64 s) r = NaN \<longleftrightarrow>
      min_f64 s = NaN \<or> toAbsolute_f64 s r = NaN \<or> max_f64 s = NaN) \<and>
   (min_f64 s \<noteq> NaN \<and> max_f64 s \<noteq> NaN \<and> toAbsolute_f64 s r \<noteq> NaN \<longrightarrow>
      num_le (Math_min_f64 (min_f64 s) (max_f64 s)) (toAbsolute_f64 (clamped_f64 s) r) \<and>
      num_le (toAbsolute_f64 (clamped_f64 s) r) (Math_max_f64 (min_f64 s) (max_f64 s))) \<and>
   (min_f64 s \<noteq> NaN \<and> max_f64 s \<noteq> NaN \<and> toAbsolute_f64 s r \<noteq> NaN \<and>
    num_le (min_f64 s) (max_f64 s) \<longrightarrow>
      num_le (min_f64 s) (toAbsolute_f64 (clamped_f64 s) r) \<and>
      num_le (toAbsolute_f64 (clamped_f64 s) r) (max_f64 s)) \<and>
   (toAbsolute_f64 s' r' \<noteq> NaN \<and> num_lt (max_f64 s') (min_f64 s') \<longrightarrow>
      toAbsolute_f64 (clamped_f64 s') r' = min_f64 s') \<and>
   toRatio_f64 (clamped_f64 (linearScale_f64 (Finite 0) (Finite 100) None)) (Finite 150)
     = Finite 1"
proof (intro conjI impI)
  assume "toRatio_f64 s v \<noteq> NaN"
  then show "num_le (Finite 0) (toRatio_f64 (clamped_f64 s) v)"
    and "num_le (toRatio_f64 (clamped_f64 s) v) (Finite 1)"
    unfolding clamped_f64_toRatio using clamp_ratio_bounds by simp_all
next
  show "toRatio_f64 (clamped_f64 s) v = NaN \<longleftrightarrow> toRatio_f64 s v = NaN"
    unfolding clamped_f64_toRatio clamp_nan by simp
next
  show "toAbsolute_f64 (clamped_f64 s) r = NaN \<longleftrightarrow>
      min_f64 s = NaN \<or> toAbsolute_f64 s r = NaN \<or> max_f64 s = NaN"
    unfolding clamped_f64_toAbsolute clamp_nan by simp
next
  assume "min_f64 s \<noteq> NaN \<and> max_f64 s \<noteq> NaN \<and> toAbsolute_f64 s r \<noteq> NaN"
  then show "num_le (Math_min_f64 (min_f64 s) (max_f64 s)) (toAbsolute_f64 (clamped_f64 s) r)"
    and "num_le (toAbsolute_f64 (clamped_f64 s) r) (Math_max_f64 (min_f64 s) (max_f64 s))"
    unfolding clamped_f64_toAbsolute using clamp_between by simp_all
next
  assume "min_f64 s \<noteq> NaN \<and> max_f64 s \<noteq> NaN \<and> toAbsolute_f64 s r \<noteq> NaN \<and>
    num_le (min_f64 s) (max_f64 s)"
  then show "num_le (min_f64 s) (toAbsolute_f64 (clamped_f64 s) r)"
    and "num_le (toAbsolute_f64 (clamped_f64 s) r) (max_f64 s)"
    unfolding clamped_f64_toAbsolute using clamp_ordered by simp_all
next
  assume "toAbsolute_f64 s' r' \<noteq> NaN \<and> num_lt (max_f64 s') (min_f64 s')"
  then show "toAbsolute_f64 (clamped_f64 s') r' = min_f64 s'"
    unfolding clamped_f64_toAbsolute using clamp_reversed by simp
next
  show "toRatio_f64 (clamped_f64 (linearScale_f64 (Finite 0) (Finite 100) None)) (Finite 150)
     = Finite 1"
    unfolding clamped_f64_toRatio example_toRatio_150
    by (simp add: Math_max_f64_def Math_min_f64_def num_lt_def num_le_def)
qed

text \<open>
  Witness for C5: \<open>linearScale(0, 100)\<close> at the value \<open>150\<close> and the ratio \<open>3/2\<close>, which
  clamps to \<open>100\<close>; and the reversed \<open>linearScale(100, 0)\<close> at the ratio \<open>1/2\<close>, whose
  \<open>50\<close> becomes \<open>100\<close>.
\<close>

theorem clamped_bounds_witness:
  "toRatio_f64 (linearScale_f64 (Finite 0) (Finite 100) None) (Finite 150) \<noteq> NaN \<and>
   toAbsolute_f64 (linearScale_f64 (Finite 0) (Finite 100) None) (Finite (3 / 2)) \<noteq> NaN \<and>
   num_le (min_f64 (linearScale_f64 (Finite 0) (Finite 100) None))
     (max_f64 (linearScale_f64 (Finite 0) (Finite 100) None)) \<and>
   toAbsolute_f64 (clamped_f64 (linearScale_f64 (Finite 0) (Finite 100) None)) (Finite (3 / 2))
     = Finite 100 \<and>
   toAbsolute_f64 (linearScale_f64 (Finite 100) (Finite 0) None) (Finite (1 / 2)) = Finite 50 \<and>
   num_lt (max_f64 (linearScale_f64 (Finite 100) (Finite 0) None))
     (min_f64 (linearScale_f64 (Finite 100) (Finite 0) None)) \<and>
   toAbsolute_f64 (clamped_f64 (linearScale_f64 (Finite 100) (Finite 0) None)) (Finite (1 / 2))
     = Finite 100"
  using clamped_bounds [of "linearScale_f64 (Finite 0) (Finite 100) None" "Finite 150"
      "Finite (3 / 2)" "linearScale_f64 (Finite 100) (Finite 0) None" "Finite (1 / 2)"]
  by (simp add: clamped_f64_toAbsolute clamped_f64_toRatio example_toRatio_150
      example_toAbsolute_three_halves example_reversed_toAbsolute_half linearScale_f64_bounds
      Math_max_f64_def Math_min_f64_def num_lt_def num_le_def)

text \<open>
  C6. For every scale \<open>s\<close>, \<open>clamped(s)\<close> has the \<open>min\<close>, \<open>max\<close>, \<open>convertTo\<close> and
  \<open>applyDeltaTo\<close> of \<open>s\<close>. The last two still go through the unclamped \<open>toRatio\<close> of
  \<open>s\<close>: converting \<open>150\<close> from the clamped \<open>linearScale(0,100)\<close> to \<open>linearScale(0,200)\<close>
  gives \<open>300\<close>, not \<open>200\<close>.
\<close>

theorem clamped_frame:
  "min_s (clamped s) = min_s s \<and> max_s (clamped s) = max_s s \<and>
   convertTo (clamped s) = convertTo s \<and> applyDeltaTo (clamped s) = applyDeltaTo s \<and>
   (let l = linearScale mn mx inverted
    in convertTo (clamped l) other a = toAbsolute other (toRatio l a)) \<and>
   convertTo (clamped (linearScale 0 100 None)) (linearScale 0 200 None) 150 = 300"
proof -
  have "convertTo (clamped (linearScale 0 100 None)) (linearScale 0 200 None) 150 = 300"
    by (simp add: clamped_def linearScale_convertTo linearScale_toRatio linearScale_toAbsolute
        truthy_def)
  then show ?thesis by (simp add: clamped_def Let_def linearScale_convertTo)
qed

section \<open>Rastered linear scales\<close>

text \<open>
  C7. For every \<open>rasteredLinearScale(min, max, stepSize)\<close> with \<open>stepSize > 0\<close> and every
  ratio \<open>r\<close>, \<open>toAbsolute(r)\<close> is an integer multiple of \<open>stepSize\<close>, and snapping,
  \<open>a \<mapsto> round(a / stepSize) * stepSize\<close>, is idempotent; so \<open>toRatio\<close> of the rastered
  scale on a value that \<open>toAbsolute\<close> returned is the delegate's \<open>toRatio\<close> on that value.
\<close>

theorem rastered_multiple_idempotent:
  assumes "0 < stepSize"
  shows "(\<exists>k::int. toAbsolute (rasteredLinearScale mn mx stepSize inverted) r
            = of_int k * stepSize) \<and>
         Math_round (Math_round (a / stepSize) * stepSize / stepSize) * stepSize =
           Math_round (a / stepSize) * stepSize \<and>
         toRatio (rasteredLinearScale mn mx stepSize inverted)
             (toAbsolute (rasteredLinearScale mn mx stepSize inverted) r) =
           toRatio (linearScale mn mx inverted)
             (toAbsolute (rasteredLinearScale mn mx stepSize inverted) r)"
proof (intro conjI)
  show "\<exists>k::int. toAbsolute (rasteredLinearScale mn mx stepSize inverted) r = of_int k * stepSize"
    by (simp add: rasteredLinearScale_toAbsolute Math_round_def)
  show "Math_round (Math_round (a / stepSize) * stepSize / stepSize) * stepSize =
           Math_round (a / stepSize) * stepSize"
    using assms snap_idem by simp
  show "toRatio (rasteredLinearScale mn mx stepSize inverted)
             (toAbsolute (rasteredLinearScale mn mx stepSize inverted) r) =
           toRatio (linearScale mn mx inverted)
             (toAbsolute (rasteredLinearScale mn mx stepSize inverted) r)"
    using assms snap_idem [of stepSize "toAbsolute (linearScale mn mx inverted) r"]
    by (simp add: rasteredLinearScale_toRatio rasteredLinearScale_toAbsolute
        linearScale_toRatio linearScale_toAbsolute)
qed

text \<open>
  Witness for C7: steps of \<open>1/2\<close> on \<open>[0, 10]\<close>; the ratio \<open>1/3\<close> is \<open>10/3\<close> on the
  delegate and snaps to \<open>7/2\<close>.
\<close>

theorem rastered_multiple_idempotent_witness:
  "(0::real) < 1 / 2 \<and>
   (\<exists>k::int. toAbsolute (rasteredLinearScale 0 10 (1 / 2) None) (1 / 3) = of_int k * (1 / 2)) \<and>
   toAbsolute (rasteredLinearScale 0 10 (1 / 2) None) (1 / 3) = 7 / 2"
proof -
  have "toAbsolute (rasteredLinearScale 0 10 (1 / 2) None) (1 / 3) = 7 / 2"
    by (simp add: rasteredLinearScale_toAbsolute linearScale_toAbsolute truthy_def Math_round_def)
  then show ?thesis
    using rastered_multiple_idempotent [of "1 / 2" 0 10 None "1 / 3" 0]
    by (simp add: rasteredLinearScale_toAbsolute linearScale_toAbsolute truthy_def)
qed

text \<open>
  C8, as stated: snapping resolves ties away from zero, so that with \<open>stepSize = 1\<close> the
  input \<open>-2.5\<close> snaps to \<open>-3\<close>. \<open>Math.round\<close> resolves ties towards plus infinity:
  \<open>-2.5\<close> snaps to \<open>-2\<close>, also through \<open>toAbsolute\<close> of \<open>rasteredLinearScale(0, 10, 1)\<close>
  at the ratio \<open>-1/4\<close>.
\<close>

theorem raster_ties_counterexample:
  "Math_round (- 2.5 / 1) * 1 = - 2 \<and>
   toAbsolute (rasteredLinearScale 0 10 1 None) (- 1 / 4) = - 2 \<and>
   toAbsolute (rasteredLinearScale 0 10 1 None) (- 1 / 4) \<noteq> - 3"
  by (simp add: rasteredLinearScale_toAbsolute linearScale_toAbsolute truthy_def Math_round_def)

text \<open>
  C8, amended: for \<open>stepSize > 0\<close>, snapping returns a nearest multiple of \<open>stepSize\<close>
  (at most \<open>stepSize / 2\<close> away from its input) and resolves ties towards plus infinity:
  when \<open>a / stepSize\<close> is \<open>k + 1/2\<close> for an integer \<open>k\<close>, the result is
  \<open>(k + 1) * stepSize\<close>. The same holds of \<open>toAbsolute\<close> of a rastered scale with respect
  to the delegate's value.
\<close>

theorem raster_ties_toward_plus_infinity:
  assumes "0 < stepSize"
  shows "\<bar>Math_round (a / stepSize) * stepSize - a\<bar> \<le> stepSize / 2 \<and>
         (a / stepSize = of_int k + 1 / 2 \<longrightarrow>
            Math_round (a / stepSize) * stepSize = (of_int k + 1) * stepSize) \<and>
         \<bar>toAbsolute (rasteredLinearScale mn mx stepSize inverted) r
            - toAbsolute (linearScale mn mx inverted) r\<bar> \<le> stepSize / 2 \<and>
         (toAbsolute (linearScale mn mx inverted) r / stepSize = of_int k + 1 / 2 \<longrightarrow>
            toAbsolute (rasteredLinearScale mn mx stepSize inverted) r = (of_int k + 1) * stepSize)"
proof -
  define A where
    "A = (if truthy inverted then mn + (1 - r) * (mx - mn) else mn + r * (mx - mn))"
  show ?thesis
    unfolding rasteredLinearScale_toAbsolute linearScale_toAbsolute A_def [symmetric]
    using snap_nearest [OF assms, of a] snap_nearest [OF assms, of A]
      snap_tie [of a stepSize k] snap_tie [of A stepSize k]
    by blast
qed

text \<open>Witness for C8: \<open>stepSize = 1\<close>, the input \<open>-5/2\<close>, which is \<open>-3 + 1/2\<close>.\<close>

theorem raster_ties_toward_plus_infinity_witness:
  "(0::real) < 1 \<and> (- 5 / 2) / 1 = real_of_int (- 3) + 1 / 2 \<and>
   Math_round ((- 5 / 2) / 1) * 1 = (of_int (- 3) + 1) * 1 \<and>
   toAbsolute (linearScale 0 10 None) (- 1 / 4) / 1 = of_int (- 3) + 1 / 2 \<and>
   toAbsolute (rasteredLinearScale 0 10 1 None) (- 1 / 4) = - 2"
  using raster_ties_toward_plus_infinity [of 1 "- 5 / 2" "- 3" 0 10 None "- 1 / 4"]
  by (simp add: rasteredLinearScale_toAbsolute linearScale_toAbsolute truthy_def)

section \<open>The no-op scale\<close>

text \<open>
  C9. For all numbers \<open>x\<close>, \<open>d\<close>, \<open>c\<close> and every other scale, the no-op scale's
  \<open>toRatio\<close> and \<open>toAbsolute\<close> return \<open>x\<close>, its \<open>convertTo\<close> returns \<open>x\<close> whatever the
  other scale is (the other scale's \<open>toAbsolute\<close> is not applied), and its
  \<open>applyDeltaTo\<close> returns \<open>c + d\<close>.
\<close>

theorem noopScale_identity:
  "toRatio noopScale x = x \<and>
   toAbsolute noopScale x = x \<and>
   convertTo noopScale other x = x \<and>
   applyDeltaTo noopScale other d c = c + d"
  by (simp add: noopScale_def)

end
